theory Spec2Isabelle
  imports Complex_Main "HOL-Library.Sublist"
begin

section \<open>Python values as the scripts read them\<close>

text \<open>
  The scripts handle marketplace records as dictionaries and read every field with
  \<^verbatim>\<open>d.get(key)\<close> or \<^verbatim>\<open>d.get(key, default)\<close>. A dictionary entry is therefore
  in one of three states: the key is missing, the key holds \<^verbatim>\<open>None\<close> (a JSON
  null), or the key holds a value. \<^verbatim>\<open>d.get(key)\<close> cannot tell the first two
  apart; \<^verbatim>\<open>d.get(key, default)\<close> can.
\<close>

datatype 'a entry = Missing | Null | Val 'a

fun get :: "'a entry \<Rightarrow> 'a option" where
  "get Missing = None"
| "get Null = None"
| "get (Val v) = Some v"

fun get_default :: "'a entry \<Rightarrow> 'a option \<Rightarrow> 'a option" where
  "get_default Missing d = d"
| "get_default Null d = None"
| "get_default (Val v) d = Some v"

text \<open>
  Python's truth test, as \<^verbatim>\<open>if x:\<close> and \<^verbatim>\<open>not x\<close> apply it: \<^verbatim>\<open>None\<close>, the
  empty string and the number zero are false, every other string or number is true.
\<close>

fun truthy_str :: "string option \<Rightarrow> bool" where
  "truthy_str None = False"
| "truthy_str (Some s) = (s \<noteq> [])"

fun truthy_num :: "rat option \<Rightarrow> bool" where
  "truthy_num None = False"
| "truthy_num (Some a) = (a \<noteq> 0)"

fun truthy_int :: "int option \<Rightarrow> bool" where
  "truthy_int None = False"
| "truthy_int (Some a) = (a \<noteq> 0)"

text \<open>
  Exceptions are values. \<^verbatim>\<open>except Exception\<close> catches all of them;
  \<^verbatim>\<open>except BidNotPlacedException\<close> catches the first only.
\<close>

datatype exn =
    BidNotPlacedException string
  | AttributeError string
  | IndexError string
  | OtherException string

fun str_exn :: "exn \<Rightarrow> string" where
  "str_exn (BidNotPlacedException m) = m"
| "str_exn (AttributeError m) = m"
| "str_exn (IndexError m) = m"
| "str_exn (OtherException m) = m"

section \<open>Records of the marketplace\<close>

text \<open>
  Amounts are JSON numbers; they are modelled as exact rationals (binary floating point is
  not modelled).
\<close>

record budget =
  minimum :: "rat entry"
  maximum :: "rat entry"

record project =
  id :: "int entry"
  description :: "string entry"
  budget :: "budget entry"
  status :: "string entry"
  frontend_status :: "string entry"
  sub_status :: "string entry"

section \<open>Eligibility: the listing filter of \<^verbatim>\<open>find_projects\<close>\<close>

definition active_states :: "string list" where
  "active_states = [''active'', ''open'', ''published'']"

definition inactive_states :: "string list" where
  "inactive_states = [''closed'', ''frozen'', ''cancelled'']"

text \<open>\<^verbatim>\<open>status and status in active_states\<close>.\<close>

fun is_active :: "string option \<Rightarrow> bool" where
  "is_active None = False"
| "is_active (Some s) = (s \<noteq> [] \<and> s \<in> set active_states)"

text \<open>
  The condition of the \<^verbatim>\<open>if\<close> in the loop of \<^verbatim>\<open>find_projects\<close>. The search call
  before the loop and the display after it are not part of the model.
\<close>

definition listing_biddable :: "project \<Rightarrow> bool" where
  "listing_biddable p =
     (let st = get (status p);
          fs = get (frontend_status p);
          ss = get (sub_status p)
      in is_active st \<or> is_active fs
         \<or> (\<not> truthy_str st \<and> \<not> truthy_str fs \<and> \<not> truthy_str ss))"

text \<open>The loop: \<^verbatim>\<open>biddable_projects.append(project)\<close> for every project that passes.\<close>

fun biddable_loop :: "project list \<Rightarrow> project list \<Rightarrow> project list" where
  "biddable_loop acc [] = acc"
| "biddable_loop acc (p # ps) =
     biddable_loop (if listing_biddable p then acc @ [p] else acc) ps"

definition biddable_projects :: "project list \<Rightarrow> project list" where
  "biddable_projects ps = biddable_loop [] ps"

section \<open>Bid sizing: the tools of the bidder agent\<close>

text \<open>
  \<^verbatim>\<open>BidderAgentDeps\<close>, with the fields the two tools read. \<^verbatim>\<open>bid_history\<close> and
  \<^verbatim>\<open>typical_bid_amount\<close> default to \<^verbatim>\<open>None\<close>.
\<close>

record past_bid =
  amount :: "rat entry"

record bidder_agent_deps =
  deps_project :: project
  bid_history :: "past_bid list option"
  typical_bid_amount :: "rat option"

text \<open>
  \<^verbatim>\<open>round(x, 2)\<close> on an exact number: the nearest multiple of 1/100, a tie going to the
  even one.
\<close>

definition round2 :: "rat \<Rightarrow> rat" where
  "round2 x =
     (let y = x * 100;
          f = \<lfloor>y\<rfloor>;
          r = y - of_int f
      in of_int (if r < 1 / 2 then f
                 else if 1 / 2 < r then f + 1
                 else if even f then f else f + 1) / 100)"

text \<open>
  \<^verbatim>\<open>[bid.get('amount', 0) for bid in bid_history if bid.get('amount')]\<close>
\<close>

fun past_bids :: "past_bid list \<Rightarrow> rat list" where
  "past_bids [] = []"
| "past_bids (b # bs) =
     (if truthy_num (get (amount b))
      then (case get_default (amount b) (Some 0) of
              Some a \<Rightarrow> a # past_bids bs
            | None \<Rightarrow> past_bids bs)
      else past_bids bs)"

definition empty_budget :: budget where
  "empty_budget = \<lparr>minimum = Missing, maximum = Missing\<rparr>"

text \<open>The starting amount, from the budget dictionary.\<close>

definition budget_amount :: "budget \<Rightarrow> rat" where
  "budget_amount b =
     (let min_budget = get (minimum b);
          max_budget = get_default (maximum b) min_budget
      in case (min_budget, max_budget) of
           (Some lo, Some hi) \<Rightarrow> (lo + hi) / 2
         | _ \<Rightarrow> 500)"

text \<open>The adjustment by the bid history.\<close>

definition blend_history :: "past_bid list option \<Rightarrow> rat \<Rightarrow> rat" where
  "blend_history h typical_amount =
     (case h of
        None \<Rightarrow> typical_amount
      | Some [] \<Rightarrow> typical_amount
      | Some bs \<Rightarrow>
          (let ps = past_bids bs in
           if ps \<noteq> []
           then (typical_amount + sum_list ps / of_nat (length ps)) / 2
           else typical_amount))"

text \<open>
  \<^verbatim>\<open>get_typical_bid_amount\<close>. \<^verbatim>\<open>project.get('budget', {})\<close> is \<^verbatim>\<open>None\<close> when the key
  holds a null, and \<^verbatim>\<open>None.get\<close> raises.
\<close>

definition get_typical_bid_amount :: "bidder_agent_deps \<Rightarrow> exn + rat" where
  "get_typical_bid_amount d =
     (case (truthy_num (typical_bid_amount d), typical_bid_amount d) of
        (True, Some a) \<Rightarrow> Inr a
      | _ \<Rightarrow>
          (case get_default (budget (deps_project d)) (Some empty_budget) of
             None \<Rightarrow> Inl (AttributeError ''get'')
           | Some b \<Rightarrow>
               Inr (round2 (blend_history (bid_history d) (budget_amount b)))))"

subsection \<open>Strings\<close>

text \<open>
  \<^verbatim>\<open>str.lower()\<close> on the ASCII letters; every other character is left as it is.
\<close>

definition ascii_uppercase :: string where
  "ascii_uppercase = ''ABCDEFGHIJKLMNOPQRSTUVWXYZ''"

definition ascii_lowercase :: string where
  "ascii_lowercase = ''abcdefghijklmnopqrstuvwxyz''"

definition lower_char :: "char \<Rightarrow> char" where
  "lower_char c =
     (case map_of (zip ascii_uppercase ascii_lowercase) c of
        Some l \<Rightarrow> l
      | None \<Rightarrow> c)"

definition lower :: "string \<Rightarrow> string" where
  "lower s = map lower_char s"

text \<open>\<^verbatim>\<open>word in s\<close>: \<^verbatim>\<open>word\<close> occurs in \<^verbatim>\<open>s\<close> as a contiguous run.\<close>

fun starts_with :: "string \<Rightarrow> string \<Rightarrow> bool" where
  "starts_with s [] = True"
| "starts_with [] (w # ws) = False"
| "starts_with (c # s) (w # ws) = (c = w \<and> starts_with s ws)"

fun str_in :: "string \<Rightarrow> string \<Rightarrow> bool" where
  "str_in w [] = (w = [])"
| "str_in w (c # s) = (starts_with (c # s) w \<or> str_in w s)"

definition urgent_words :: "string list" where
  "urgent_words = [''urgent'', ''asap'', ''immediately'']"

definition complex_words :: "string list" where
  "complex_words = [''complex'', ''extensive'', ''comprehensive'']"

text \<open>
  \<^verbatim>\<open>estimate_completion_time\<close>. \<^verbatim>\<open>project.get('description', '')\<close> is \<^verbatim>\<open>None\<close> when
  the key holds a null, and \<^verbatim>\<open>None.lower\<close> raises.
\<close>

definition estimate_completion_time :: "bidder_agent_deps \<Rightarrow> exn + int" where
  "estimate_completion_time d =
     (case get_default (description (deps_project d)) (Some []) of
        None \<Rightarrow> Inl (AttributeError ''lower'')
      | Some descr \<Rightarrow>
          Inr (if list_ex (\<lambda>word. str_in word (lower descr)) urgent_words then 3
               else if list_ex (\<lambda>word. str_in word (lower descr)) complex_words then 14
               else 7))"

section \<open>The collaborators and what a run leaves behind\<close>

text \<open>
  \<^verbatim>\<open>BidProposal\<close>, the request that \<^verbatim>\<open>place_project_bid\<close> receives (project id, bidder
  id, amount, period, description, milestone percentage) and the bid it answers with.
\<close>

record bid_proposal =
  project_id :: int
  bid_amount :: rat
  period :: int
  proposal_description :: string
  milestone_percentage :: int

datatype bid_request = Bid_request int int rat int string int

record bid =
  bid_id :: int
  bid_amount_placed :: rat
  bid_period :: int

text \<open>
  The marketplace SDK, as far as these functions call it. Each call either raises or
  returns; \<^verbatim>\<open>get_project_by_id\<close> may return a false value (\<open>None\<close> here).
\<close>

record sdk =
  get_project_by_id :: "int \<Rightarrow> exn + project option"
  get_self_user_id :: "exn + int"
  place_project_bid :: "bid_request \<Rightarrow> exn + bid"

text \<open>
  A formatted message is the list of its pieces: literal text, the values put into the
  holes of an f-string, and the colour codes around it.
\<close>

datatype piece =
    Lit string
  | Str_hole string
  | Int_hole int
  | Num_hole rat
  | Opt_hole "string option"
  | Fore_yellow
  | Fore_red
  | Style_reset

type_synonym message = "piece list"

text \<open>
  What a run does to the outside, in order: the SDK calls it makes, what it prints and
  what it logs. \<^verbatim>\<open>display_bid_proposal\<close> and \<^verbatim>\<open>display_bid_result\<close> only print; each
  is one event.
\<close>

datatype event =
    Call_get_project_by_id int
  | Call_get_self_user_id
  | Call_place_project_bid bid_request
  | Print message
  | Log_info message
  | Log_error message
  | Display_bid_proposal bid_proposal
  | Display_bid_result bid

type_synonym trace = "event list"

fun is_submit :: "event \<Rightarrow> bool" where
  "is_submit (Call_place_project_bid rq) = True"
| "is_submit ev = False"

definition submit_calls :: "trace \<Rightarrow> nat" where
  "submit_calls t = length (filter is_submit t)"

section \<open>The re-check before submission and the submission\<close>

text \<open>
  The condition of \<^verbatim>\<open>check_project_status\<close>. \<^verbatim>\<open>sub_status\<close> is read and not used.
  The whole function is under \<^verbatim>\<open>except Exception\<close>, so a fetch that raises answers
  \<^verbatim>\<open>False\<close>.
\<close>

definition status_allows_bidding :: "project \<Rightarrow> bool" where
  "status_allows_bidding p =
     (let st = get (status p);
          fs = get (frontend_status p);
          ss = get (sub_status p)
      in is_active st \<or> is_active fs
         \<or> (\<not> truthy_str st \<and> \<not> truthy_str fs))"

definition check_project_status :: "sdk \<Rightarrow> int \<Rightarrow> trace \<Rightarrow> bool \<times> trace" where
  "check_project_status api pid t =
     (let t1 = t @ [Call_get_project_by_id pid] in
      case get_project_by_id api pid of
        Inl e \<Rightarrow>
          (False, t1 @ [Log_error [Lit ''Error checking project status: '',
                                   Str_hole (str_exn e)]])
      | Inr None \<Rightarrow>
          (False, t1 @ [Log_info [Lit ''Project '', Int_hole pid, Lit '' not found.'']])
      | Inr (Some p) \<Rightarrow>
          (let t2 = t1 @ [Log_info [Lit ''Project status: '', Opt_hole (get (status p)),
                                    Lit '', frontend status: '',
                                    Opt_hole (get (frontend_status p))]]
           in if status_allows_bidding p then (True, t2)
              else (False, t2 @ [Log_info [Lit ''Project '', Int_hole pid,
                                   Lit '' is not in an active state for bidding.'']])))"

text \<open>The body of the \<^verbatim>\<open>try\<close> in \<^verbatim>\<open>submit_bid\<close>: what it returns or raises.\<close>

definition submit_bid_try :: "sdk \<Rightarrow> bid_proposal \<Rightarrow> trace \<Rightarrow> (exn + bid option) \<times> trace" where
  "submit_bid_try api proposal t =
     (case check_project_status api (project_id proposal) t of
        (False, t1) \<Rightarrow>
          (Inr None, t1 @ [Print [Fore_yellow,
                                  Lit ''This project is not available for bidding.'',
                                  Style_reset]])
      | (True, t1) \<Rightarrow>
          (let t2 = t1 @ [Call_get_self_user_id] in
           case get_self_user_id api of
             Inl e \<Rightarrow> (Inl e, t2)
           | Inr bidder_id \<Rightarrow>
               (let rq = Bid_request (project_id proposal) bidder_id (bid_amount proposal)
                           (period proposal) (proposal_description proposal)
                           (milestone_percentage proposal);
                    t3 = t2 @ [Call_place_project_bid rq]
                in case place_project_bid api rq of
                     Inl e \<Rightarrow> (Inl e, t3)
                   | Inr bid_result \<Rightarrow> (Inr (Some bid_result), t3))))"

text \<open>\<^verbatim>\<open>submit_bid\<close>: the body under its \<^verbatim>\<open>except Exception\<close>.\<close>

definition submit_bid :: "sdk \<Rightarrow> bid_proposal \<Rightarrow> trace \<Rightarrow> (exn + bid option) \<times> trace" where
  "submit_bid api proposal t =
     (case submit_bid_try api proposal t of
        (Inl e, t1) \<Rightarrow>
          (Inr None, t1 @ [Log_error [Lit ''Error submitting bid: '', Str_hole (str_exn e)],
                           Print [Fore_red, Lit ''Detailed error: '', Str_hole (str_exn e),
                                  Style_reset]])
      | (Inr r, t1) \<Rightarrow> (Inr r, t1))"

text \<open>
  The end of \<^verbatim>\<open>main\<close> (bidder agent): the proposal is shown, the operator answers the
  prompt with \<open>answer\<close>, and the bid is submitted when the answer in lower case is \<open>y\<close>.
  \<^verbatim>\<open>display_bid_result\<close> prints nothing for \<^verbatim>\<open>None\<close>.
\<close>

definition main_confirm :: "sdk \<Rightarrow> bid_proposal option \<Rightarrow> string \<Rightarrow> trace \<Rightarrow> (exn + unit) \<times> trace" where
  "main_confirm api proposal answer t =
     (case proposal of
        None \<Rightarrow> (Inr (), t)
      | Some pr \<Rightarrow>
          (let t1 = t @ [Display_bid_proposal pr,
                         Print [Lit [CHR 0x0A], Fore_yellow, Lit ''Submit this bid? (y/n): '',
                                Style_reset]]
           in if lower answer = ''y''
              then (case submit_bid api pr t1 of
                      (Inl e, t2) \<Rightarrow> (Inl e, t2)
                    | (Inr None, t2) \<Rightarrow> (Inr (), t2)
                    | (Inr (Some bid_result), t2) \<Rightarrow>
                        (Inr (), t2 @ [Display_bid_result bid_result]))
              else (Inr (), t1)))"

text \<open>
  Whether some printed or logged message of a run contains the text \<open>s\<close>, in a literal
  part or in a string put into a hole.
\<close>

fun text_of :: "piece \<Rightarrow> string" where
  "text_of (Lit s) = s"
| "text_of (Str_hole s) = s"
| "text_of p = []"

fun message_of :: "event \<Rightarrow> message" where
  "message_of (Print m) = m"
| "message_of (Log_info m) = m"
| "message_of (Log_error m) = m"
| "message_of ev = []"

definition says :: "string \<Rightarrow> trace \<Rightarrow> bool" where
  "says s t = list_ex (\<lambda>ev. list_ex (\<lambda>p. str_in s (text_of p)) (message_of ev)) t"

section \<open>The search tool: \<^verbatim>\<open>place_bid\<close>\<close>

definition BID_AMOUNT :: int where
  "BID_AMOUNT = 100"

definition BID_PERIOD :: int where
  "BID_PERIOD = 7"

definition BID_DESCRIPTION :: string where
  "BID_DESCRIPTION = concat
     [[CHR 0x0A],
      ''Hello! I'', [CHR 0x27], ''m interested in working on your project. '',
      ''I have extensive experience in this area and can deliver high-quality results '',
      ''within your specified timeframe.'', [CHR 0x0A],
      [CHR 0x0A],
      ''With my expertise in:'', [CHR 0x0A],
      ''- Python development'', [CHR 0x0A],
      ''- API integration'', [CHR 0x0A],
      ''- Data analysis'', [CHR 0x0A],
      [CHR 0x0A],
      ''I'', [CHR 0x27], ''m confident I can exceed your expectations. '',
      ''If you have any questions, please let me know.'', [CHR 0x0A],
      [CHR 0x0A],
      ''Looking forward to your response!'', [CHR 0x0A]]"

text \<open>
  The \<^verbatim>\<open>except BidNotPlacedException\<close> of \<^verbatim>\<open>place_bid\<close>: any other exception goes on
  to the caller.
\<close>

fun bid_not_placed :: "exn \<Rightarrow> trace \<Rightarrow> (exn + bid option) \<times> trace" where
  "bid_not_placed (BidNotPlacedException m) t =
     (Inr None, t @ [Print [Lit ''Error placing bid: '', Str_hole m]])"
| "bid_not_placed e t = (Inl e, t)"

text \<open>\<^verbatim>\<open>place_bid\<close>; \<open>answer\<close> is what the operator types at the prompt.\<close>

definition place_bid :: "sdk \<Rightarrow> int \<Rightarrow> string \<Rightarrow> trace \<Rightarrow> (exn + bid option) \<times> trace" where
  "place_bid api pid answer t =
     (let t1 = t @ [Print [Lit ''Preparing to place bid on project '', Int_hole pid, Lit ''...''],
                    Print [Lit ''WARNING: THIS WILL PLACE A REAL BID ON A REAL PROJECT.''],
                    Print [Lit ''Bid amount: $'', Int_hole BID_AMOUNT],
                    Print [Lit ''Delivery period: '', Int_hole BID_PERIOD, Lit '' days''],
                    Print [Lit ''Description: '', Str_hole BID_DESCRIPTION, Lit ''...''],
                    Print [Lit [CHR 0x0A], Lit ''Type '', Lit [CHR 0x27], Lit ''CONFIRM'',
                           Lit [CHR 0x27], Lit '' to proceed or anything else to cancel: '']]
      in if answer \<noteq> ''CONFIRM''
         then (Inr None, t1 @ [Print [Lit ''Bid cancelled.'']])
         else
           (let t2 = t1 @ [Print [Lit ''Placing bid on project '', Int_hole pid, Lit ''...''],
                           Call_get_self_user_id]
            in case get_self_user_id api of
                 Inl e \<Rightarrow> bid_not_placed e t2
               | Inr user_id \<Rightarrow>
                   (let rq = Bid_request pid user_id (of_int BID_AMOUNT) BID_PERIOD
                               BID_DESCRIPTION 100;
                        t3 = t2 @ [Call_place_project_bid rq]
                    in case place_project_bid api rq of
                         Inl e \<Rightarrow> bid_not_placed e t3
                       | Inr b \<Rightarrow>
                           (Inr (Some b),
                            t3 @ [Print [Lit ''Bid placed successfully!''],
                                  Print [Lit ''Bid ID: '', Int_hole (bid_id b)],
                                  Print [Lit ''Amount: $'', Num_hole (bid_amount_placed b)],
                                  Print [Lit ''Period: '', Int_hole (bid_period b),
                                         Lit '' days'']]))))"

section \<open>The agent tool \<^verbatim>\<open>get_project_details\<close>\<close>

text \<open>
  \<^verbatim>\<open>xs[i]\<close>: a negative index counts from the end, an index outside the list raises.
\<close>

definition getitem :: "'a list \<Rightarrow> int \<Rightarrow> exn + 'a" where
  "getitem xs i =
     (let n = int (length xs)
      in if 0 \<le> i \<and> i < n then Inr (xs ! nat i)
         else if - n \<le> i \<and> i < 0 then Inr (xs ! nat (n + i))
         else Inl (IndexError ''list index out of range''))"

text \<open>
  What the tool returns: a dictionary with the single key \<^verbatim>\<open>error\<close>, or a project (the
  one of the list, or what \<^verbatim>\<open>get_project_by_id\<close> answered).
\<close>

datatype details = Error_dict message | Project_dict "project option"

fun has_error_key :: "details \<Rightarrow> bool" where
  "has_error_key (Error_dict m) = True"
| "has_error_key (Project_dict p) = False"

text \<open>The body of the \<^verbatim>\<open>try\<close>.\<close>

definition get_project_details_try :: "sdk \<Rightarrow> project list \<Rightarrow> int \<Rightarrow> exn + details" where
  "get_project_details_try api projects project_index =
     (case getitem projects (project_index - 1) of
        Inl e \<Rightarrow> Inl e
      | Inr p \<Rightarrow>
          (case (truthy_int (get (id p)), get (id p)) of
             (True, Some pid) \<Rightarrow>
               (case get_project_by_id api pid of
                  Inl e \<Rightarrow> Inl e
                | Inr detailed_project \<Rightarrow> Inr (Project_dict detailed_project))
           | _ \<Rightarrow> Inr (Project_dict (Some p))))"

text \<open>
  \<^verbatim>\<open>get_project_details\<close>, the same text in both agent scripts: two guards, then the body
  under \<^verbatim>\<open>except Exception\<close>.
\<close>

definition get_project_details :: "sdk \<Rightarrow> project list \<Rightarrow> int \<Rightarrow> exn + details" where
  "get_project_details api projects project_index =
     (if projects = []
      then Inr (Error_dict [Lit ''No projects available in search results''])
      else if project_index < 1 \<or> project_index > int (length projects)
      then Inr (Error_dict [Lit ''Invalid project index. Please choose between 1 and '',
                            Int_hole (int (length projects))])
      else (case get_project_details_try api projects project_index of
              Inl e \<Rightarrow> Inr (Error_dict [Lit ''Error fetching project details: '',
                                         Str_hole (str_exn e)])
            | Inr r \<Rightarrow> Inr r))"

section \<open>The sizing rule, stated apart from the code\<close>





section \<open>Sample data\<close>

definition sample_project :: project where
  "sample_project =
     \<lparr>id = Val 101,
      description = Val ''Build a small web scraper'',
      budget = Val \<lparr>minimum = Val 100, maximum = Val 200\<rparr>,
      status = Missing, frontend_status = Missing, sub_status = Missing\<rparr>"

definition sample_proposal :: bid_proposal where
  "sample_proposal =
     \<lparr>project_id = 101, bid_amount = 150, period = 7,
      proposal_description = ''I can deliver this within a week.'',
      milestone_percentage = 50\<rparr>"

text \<open>
  An SDK that answers every detail request with \<open>detail\<close>, knows the user as 42 and
  answers every bid with \<open>outcome\<close>.
\<close>

definition sample_sdk :: "project option \<Rightarrow> exn + bid \<Rightarrow> sdk" where
  "sample_sdk detail outcome =
     \<lparr>get_project_by_id = (\<lambda>pid. Inr detail),
      get_self_user_id = Inr 42,
      place_project_bid = (\<lambda>rq. outcome)\<rparr>"

definition sample_bid :: bid where
  "sample_bid = \<lparr>bid_id = 9001, bid_amount_placed = 150, bid_period = 7\<rparr>"

definition sample_deps :: bidder_agent_deps where
  "sample_deps =
     \<lparr>deps_project = sample_project, bid_history = None, typical_bid_amount = None\<rparr>"

section \<open>Properties\<close>

subsection \<open>The listing filter\<close>

lemma biddable_loop_filter:
  "biddable_loop acc ps = acc @ filter listing_biddable ps"
  by (induction ps arbitrary: acc) simp_all

lemma biddable_projects_filter:
  "biddable_projects ps = filter listing_biddable ps"
  by (simp add: biddable_projects_def biddable_loop_filter)

text \<open>
  C7. A project whose \<^verbatim>\<open>status\<close>, \<^verbatim>\<open>frontend_status\<close> and \<^verbatim>\<open>sub_status\<close> are all absent
  (the key is missing or holds a null) passes the filter of \<^verbatim>\<open>find_projects\<close>, and
  is kept in the list of biddable projects.
\<close>

theorem all_status_absent_biddable:
  "get (status p) = None \<Longrightarrow> get (frontend_status p) = None \<Longrightarrow>
   get (sub_status p) = None \<Longrightarrow>
   listing_biddable p \<and> (p \<in> set ps \<longrightarrow> p \<in> set (biddable_projects ps))"
  by (simp add: listing_biddable_def biddable_projects_filter)

theorem all_status_absent_biddable_witness:
  "listing_biddable sample_project \<and> biddable_projects [sample_project] = [sample_project]"
  using all_status_absent_biddable [of sample_project "[sample_project]"]
  by (simp add: sample_project_def biddable_projects_filter)

text \<open>
  C8. A project whose \<^verbatim>\<open>status\<close> is \<^verbatim>\<open>closed\<close>, \<^verbatim>\<open>frozen\<close> or \<^verbatim>\<open>cancelled\<close>, and whose
  \<^verbatim>\<open>frontend_status\<close> is absent or not an active state, does not pass the filter of
  \<^verbatim>\<open>find_projects\<close>, whatever its \<^verbatim>\<open>sub_status\<close>.
\<close>

theorem inactive_status_not_biddable:
  "get (status p) = Some s \<Longrightarrow> s \<in> set inactive_states \<Longrightarrow>
   (\<forall>f. get (frontend_status p) = Some f \<longrightarrow> f \<notin> set active_states) \<Longrightarrow>
   \<not> listing_biddable p \<and> p \<notin> set (biddable_projects ps)"
  by (cases "get (frontend_status p)")
     (auto simp: listing_biddable_def biddable_projects_filter inactive_states_def
        active_states_def)

theorem inactive_status_not_biddable_witness:
  "\<not> listing_biddable (sample_project\<lparr>status := Val ''frozen'', sub_status := Val ''open''\<rparr>)
   \<and> biddable_projects [sample_project\<lparr>status := Val ''frozen'', sub_status := Val ''open''\<rparr>,
        sample_project] = [sample_project]"
  using inactive_status_not_biddable
    [of "sample_project\<lparr>status := Val ''frozen'', sub_status := Val ''open''\<rparr>" "''frozen''"
        "[sample_project\<lparr>status := Val ''frozen'', sub_status := Val ''open''\<rparr>, sample_project]"]
  by (simp add: sample_project_def inactive_states_def biddable_projects_filter
      listing_biddable_def)

text \<open>
  C1, as stated, fails twice. A project with only \<^verbatim>\<open>sub_status = "closed"\<close> passes
  \<^verbatim>\<open>check_project_status\<close>, whose condition does not look at \<^verbatim>\<open>sub_status\<close>; and a
  project whose only status field is an empty \<^verbatim>\<open>sub_status\<close> passes the listing filter,
  whose \<^verbatim>\<open>not sub_status\<close> takes the empty string for an absent one.
\<close>

theorem sub_status_only_counterexample:
  "get (status (sample_project\<lparr>sub_status := Val ''closed''\<rparr>)) = None
   \<and> get (frontend_status (sample_project\<lparr>sub_status := Val ''closed''\<rparr>)) = None
   \<and> get (sub_status (sample_project\<lparr>sub_status := Val ''closed''\<rparr>)) = Some ''closed''
   \<and> ''closed'' \<notin> set active_states
   \<and> fst (check_project_status
            (sample_sdk (Some (sample_project\<lparr>sub_status := Val ''closed''\<rparr>)) (Inr sample_bid))
            101 []) = True
   \<and> get (sub_status (sample_project\<lparr>sub_status := Val []\<rparr>)) = Some []
   \<and> [] \<notin> set active_states
   \<and> listing_biddable (sample_project\<lparr>sub_status := Val []\<rparr>)"
  by (simp add: sample_project_def sample_sdk_def active_states_def check_project_status_def
      status_allows_bidding_def listing_biddable_def)

text \<open>
  C1, amended. A project whose \<^verbatim>\<open>status\<close> and \<^verbatim>\<open>frontend_status\<close> are absent and whose
  \<^verbatim>\<open>sub_status\<close> is a non-empty string outside the active states does not pass the
  listing filter of \<^verbatim>\<open>find_projects\<close>.
\<close>

theorem sub_status_only_not_listed:
  "get (status p) = None \<Longrightarrow> get (frontend_status p) = None \<Longrightarrow>
   get (sub_status p) = Some v \<Longrightarrow> v \<noteq> [] \<Longrightarrow> v \<notin> set active_states \<Longrightarrow>
   \<not> listing_biddable p \<and> p \<notin> set (biddable_projects ps)"
  by (simp add: listing_biddable_def biddable_projects_filter)

theorem sub_status_only_not_listed_witness:
  "\<not> listing_biddable (sample_project\<lparr>sub_status := Val ''closed''\<rparr>)
   \<and> biddable_projects [sample_project\<lparr>sub_status := Val ''closed''\<rparr>] = []"
  using sub_status_only_not_listed
    [of "sample_project\<lparr>sub_status := Val ''closed''\<rparr>" "''closed''"
        "[sample_project\<lparr>sub_status := Val ''closed''\<rparr>]"]
  by (simp add: sample_project_def active_states_def biddable_projects_filter)

subsection \<open>The delivery period\<close>

lemma starts_with_prefix: "starts_with s w \<longleftrightarrow> prefix w s"
  by (induction s w rule: starts_with.induct) auto

lemma str_in_sublist: "str_in w s \<longleftrightarrow> sublist w s"
  by (induction s) (simp_all add: starts_with_prefix sublist_Cons_right)

lemma lower_sublist: "sublist u s \<Longrightarrow> sublist (lower u) (lower s)"
  unfolding lower_def by (rule map_mono_sublist)

text \<open>
  C6. For a project whose description is a string \<open>descr\<close> (the empty string when the key
  is missing), \<^verbatim>\<open>estimate_completion_time\<close> answers 3 when the description in lower case
  contains \<^verbatim>\<open>urgent\<close>, \<^verbatim>\<open>asap\<close> or \<^verbatim>\<open>immediately\<close>; otherwise 14 when it contains
  \<^verbatim>\<open>complex\<close>, \<^verbatim>\<open>extensive\<close> or \<^verbatim>\<open>comprehensive\<close>; otherwise 7. In particular a
  description that contains \<^verbatim>\<open>asap\<close> in any mix of cases and also \<^verbatim>\<open>comprehensive\<close>
  gets 3.
\<close>

theorem estimate_completion_time_precedence:
  "get_default (description (deps_project d)) (Some []) = Some descr \<Longrightarrow>
   estimate_completion_time d =
     Inr (if \<exists>w \<in> {''urgent'', ''asap'', ''immediately''}. sublist w (lower descr) then 3
          else if \<exists>w \<in> {''complex'', ''extensive'', ''comprehensive''}. sublist w (lower descr)
          then 14 else 7)
   \<and> (\<forall>u. lower u = ''asap'' \<and> sublist u descr \<and> sublist ''comprehensive'' descr
          \<longrightarrow> estimate_completion_time d = Inr 3)"
proof -
  assume d: "get_default (description (deps_project d)) (Some []) = Some descr"
  have main: "estimate_completion_time d =
     Inr (if \<exists>w \<in> {''urgent'', ''asap'', ''immediately''}. sublist w (lower descr) then 3
          else if \<exists>w \<in> {''complex'', ''extensive'', ''comprehensive''}. sublist w (lower descr)
          then 14 else 7)"
    by (simp add: estimate_completion_time_def d urgent_words_def complex_words_def
        str_in_sublist)
  have "estimate_completion_time d = Inr 3"
    if "lower u = ''asap''" and "sublist u descr" for u
  proof -
    from that have "sublist ''asap'' (lower descr)"
      using lower_sublist [of u descr] by simp
    then show ?thesis unfolding main by simp
  qed
  with main show ?thesis by blast
qed

theorem estimate_completion_time_precedence_witness:
  "estimate_completion_time
     (sample_deps\<lparr>deps_project :=
        sample_project\<lparr>description := Val ''Need a comprehensive audit, Asap!''\<rparr>\<rparr>) = Inr 3"
proof -
  let ?s = "''Need a comprehensive audit, Asap!''"
  let ?d = "sample_deps\<lparr>deps_project := sample_project\<lparr>description := Val ?s\<rparr>\<rparr>"
  have 1: "get_default (description (deps_project ?d)) (Some []) = Some ?s"
    by (simp add: sample_deps_def sample_project_def)
  have 2: "lower ''Asap'' = ''asap''"
    by (simp add: lower_def lower_char_def ascii_uppercase_def ascii_lowercase_def)
  have 3: "sublist ''Asap'' ?s"
    by (simp add: str_in_sublist [symmetric])
  have 4: "sublist ''comprehensive'' ?s"
    by (simp add: str_in_sublist [symmetric])
  from estimate_completion_time_precedence [OF 1] 2 3 4 show ?thesis by blast
qed

subsection \<open>The bid amount\<close>

lemma round2_grid: "\<exists>k::int. round2 x = of_int k / 100"
  unfolding round2_def Let_def by blast

lemma round2_close: "\<bar>round2 x - x\<bar> \<le> 1 / 200"
proof -
  define y where "y = x * 100"
  define f where "f = \<lfloor>y\<rfloor>"
  define k where "k = (if y - of_int f < 1 / 2 then f
                 else if 1 / 2 < y - of_int f then f + 1
                 else if even f then f else f + 1)"
  have a: "of_int f \<le> y" and b: "y < of_int f + 1"
    unfolding f_def by linarith+
  have r: "round2 x = of_int k / 100"
    by (simp add: round2_def Let_def y_def f_def k_def)
  have "\<bar>of_int k - y\<bar> \<le> 1 / 2"
    using a b unfolding k_def by (auto simp: abs_if)
  moreover have "round2 x - x = (of_int k - y) / 100"
    by (simp add: r y_def field_simps)
  ultimately show ?thesis by (simp add: abs_if field_simps split: if_splits)
qed







text \<open>
  C5, as stated, fails for the override 0: the truth test of the guard takes it for no
  override, and the amount is computed from the budget.
\<close>

theorem override_counterexample:
  "typical_bid_amount (sample_deps\<lparr>typical_bid_amount := Some 0\<rparr>) = Some 0
   \<and> get_typical_bid_amount (sample_deps\<lparr>typical_bid_amount := Some 0\<rparr>) = Inr 150"
  by (simp add: get_typical_bid_amount_def sample_deps_def sample_project_def budget_amount_def
      blend_history_def round2_def Let_def)

text \<open>
  C5, amended. For every override other than zero, \<^verbatim>\<open>get_typical_bid_amount\<close> returns the
  override as it is: the same for any project and any bid history, and not rounded.
\<close>

theorem override_returned_unchanged:
  "typical_bid_amount d = Some a \<Longrightarrow> a \<noteq> 0 \<Longrightarrow>
   get_typical_bid_amount d = Inr a
   \<and> get_typical_bid_amount (d\<lparr>deps_project := p, bid_history := h\<rparr>) = Inr a"
  by (simp add: get_typical_bid_amount_def)

theorem override_returned_unchanged_witness:
  "get_typical_bid_amount (sample_deps\<lparr>typical_bid_amount := Some (1 / 3)\<rparr>) = Inr (1 / 3)
   \<and> round2 (1 / 3) \<noteq> 1 / 3"
proof -
  have r: "round2 (1 / 3) = 33 / 100"
    by code_simp
  show ?thesis
    using override_returned_unchanged
      [of "sample_deps\<lparr>typical_bid_amount := Some (1 / 3)\<rparr>" "1 / 3"]
    by (simp add: r)
qed

subsection \<open>The re-check and the submission\<close>

lemma submit_calls_append: "submit_calls (t @ u) = submit_calls t + submit_calls u"
  by (simp add: submit_calls_def)

lemma check_project_status_fst:
  "fst (check_project_status api pid t) = fst (check_project_status api pid [])"
  by (simp add: check_project_status_def Let_def split: sum.splits option.splits)

lemma check_project_status_calls:
  "submit_calls (snd (check_project_status api pid t)) = submit_calls t"
  by (simp add: check_project_status_def Let_def submit_calls_def split: sum.splits option.splits)

lemma submit_bid_try_calls:
  "submit_calls (snd (submit_bid_try api pr t)) \<le> submit_calls t + 1"
  using check_project_status_calls [of api "project_id pr" t]
  by (cases "check_project_status api (project_id pr) t")
     (auto simp: submit_bid_try_def Let_def submit_calls_append submit_calls_def
        split: sum.splits bool.splits)

lemma submit_bid_returns: "\<exists>r. fst (submit_bid api pr t) = Inr r"
  by (cases "submit_bid_try api pr t") (auto simp: submit_bid_def split: sum.splits)

lemma submit_bid_calls:
  "submit_calls (snd (submit_bid api pr t)) \<le> submit_calls t + 1"
  using submit_bid_try_calls [of api pr t]
  by (cases "submit_bid_try api pr t")
     (auto simp: submit_bid_def submit_calls_append submit_calls_def split: sum.splits)

lemma main_confirm_returns: "fst (main_confirm api proposal answer t) = Inr ()"
proof (cases proposal)
  case None
  then show ?thesis by (simp add: main_confirm_def)
next
  case (Some pr)
  obtain r u where "submit_bid api pr (t @ [Display_bid_proposal pr,
                         Print [Lit [CHR 0x0A], Fore_yellow, Lit ''Submit this bid? (y/n): '',
                                Style_reset]]) = (Inr r, u)"
    using submit_bid_returns by (metis fst_conv surj_pair)
  with Some show ?thesis
    by (simp add: main_confirm_def Let_def split: option.splits)
qed

text \<open>
  C2, as stated, fails in its second half. When the re-check rejects the project,
  \<^verbatim>\<open>submit_bid\<close> prints \<^verbatim>\<open>This project is not available for bidding.\<close> and returns
  \<^verbatim>\<open>None\<close>: no result record is built, and no message of the run contains the text
  \<^verbatim>\<open>project no longer biddable\<close>.
\<close>

theorem recheck_counterexample:
  "submit_bid (sample_sdk (Some (sample_project\<lparr>status := Val ''closed''\<rparr>)) (Inr sample_bid))
     sample_proposal []
   = (Inr None,
      [Call_get_project_by_id 101,
       Log_info [Lit ''Project status: '', Opt_hole (Some ''closed''),
                 Lit '', frontend status: '', Opt_hole None],
       Log_info [Lit ''Project '', Int_hole 101,
                 Lit '' is not in an active state for bidding.''],
       Print [Fore_yellow, Lit ''This project is not available for bidding.'', Style_reset]])
   \<and> \<not> says ''project no longer biddable''
         (snd (submit_bid
                 (sample_sdk (Some (sample_project\<lparr>status := Val ''closed''\<rparr>)) (Inr sample_bid))
                 sample_proposal []))"
  by (simp add: submit_bid_def submit_bid_try_def check_project_status_def
      status_allows_bidding_def sample_sdk_def sample_project_def sample_proposal_def
      active_states_def says_def)

text \<open>
  C2, amended. Whenever the re-check of \<^verbatim>\<open>check_project_status\<close> answers \<^verbatim>\<open>False\<close>,
  \<^verbatim>\<open>submit_bid\<close> makes no call of \<^verbatim>\<open>place_project_bid\<close>, prints
  \<^verbatim>\<open>This project is not available for bidding.\<close> after the re-check and returns
  \<^verbatim>\<open>None\<close>; the end of \<^verbatim>\<open>main\<close> then returns normally, whatever the operator answered,
  without a call of \<^verbatim>\<open>place_project_bid\<close> and without displaying a bid result.
\<close>

theorem recheck_fails_no_submission:
  "fst (check_project_status api (project_id pr) t) = False \<Longrightarrow>
   submit_bid api pr t =
     (Inr None,
      snd (check_project_status api (project_id pr) t)
        @ [Print [Fore_yellow, Lit ''This project is not available for bidding.'',
                  Style_reset]])
   \<and> submit_calls (snd (submit_bid api pr t)) = submit_calls t
   \<and> (\<forall>answer. fst (main_confirm api (Some pr) answer t) = Inr ()
         \<and> submit_calls (snd (main_confirm api (Some pr) answer t)) = submit_calls t
         \<and> (\<forall>b. Display_bid_result b \<in> set (snd (main_confirm api (Some pr) answer t))
                \<longrightarrow> Display_bid_result b \<in> set t))"
proof -
  assume a: "fst (check_project_status api (project_id pr) t) = False"
  have s: "submit_bid api pr u =
     (Inr None,
      snd (check_project_status api (project_id pr) u)
        @ [Print [Fore_yellow, Lit ''This project is not available for bidding.'',
                  Style_reset]])" for u
  proof -
    have "fst (check_project_status api (project_id pr) u) = False"
      using a check_project_status_fst [of api "project_id pr" t]
        check_project_status_fst [of api "project_id pr" u] by simp
    then show ?thesis
      by (cases "check_project_status api (project_id pr) u")
         (simp add: submit_bid_def submit_bid_try_def)
  qed
  have c: "submit_calls (snd (submit_bid api pr u)) = submit_calls u" for u
    by (simp add: s submit_calls_append check_project_status_calls) (simp add: submit_calls_def)
  have e: "Display_bid_result b \<in> set (snd (check_project_status api pid u))
     \<longleftrightarrow> Display_bid_result b \<in> set u" for b pid u
    by (simp add: check_project_status_def Let_def split: sum.splits option.splits)
  have m: "fst (main_confirm api (Some pr) answer t) = Inr ()
         \<and> submit_calls (snd (main_confirm api (Some pr) answer t)) = submit_calls t
         \<and> (\<forall>b. Display_bid_result b \<in> set (snd (main_confirm api (Some pr) answer t))
                \<longrightarrow> Display_bid_result b \<in> set t)" for answer
    by (simp add: main_confirm_def Let_def s e submit_calls_append check_project_status_calls)
       (simp add: submit_calls_def)
  from s c m show ?thesis by blast
qed

theorem recheck_fails_no_submission_witness:
  "fst (submit_bid
          (sample_sdk (Some (sample_project\<lparr>status := Val ''closed''\<rparr>)) (Inr sample_bid))
          sample_proposal []) = Inr None
   \<and> submit_calls (snd (submit_bid
          (sample_sdk (Some (sample_project\<lparr>status := Val ''closed''\<rparr>)) (Inr sample_bid))
          sample_proposal [])) = 0"
proof -
  let ?api = "sample_sdk (Some (sample_project\<lparr>status := Val ''closed''\<rparr>)) (Inr sample_bid)"
  have 1: "fst (check_project_status ?api (project_id sample_proposal) []) = False"
    by (simp add: check_project_status_def status_allows_bidding_def sample_sdk_def
        sample_project_def active_states_def)
  have 2: "submit_calls [] = 0"
    by (simp add: submit_calls_def)
  note r = recheck_fails_no_submission [OF 1]
  from r have "fst (submit_bid ?api sample_proposal []) = Inr None"
    by (metis fst_conv)
  moreover from r 2 have "submit_calls (snd (submit_bid ?api sample_proposal [])) = 0"
    by linarith
  ultimately show ?thesis by blast
qed

subsection \<open>The confirmation prompt\<close>

text \<open>
  C3, as stated, fails for the bidder agent: the answer is put into lower case before it
  is compared, so \<^verbatim>\<open>Y\<close>, which is not the token \<^verbatim>\<open>y\<close>, submits the bid.
\<close>

theorem confirmation_counterexample:
  "''Y'' \<noteq> ''y''
   \<and> submit_calls (snd (main_confirm (sample_sdk (Some sample_project) (Inr sample_bid))
                          (Some sample_proposal) ''Y'' [])) = 1"
  by (simp add: main_confirm_def submit_bid_def submit_bid_try_def check_project_status_def
      status_allows_bidding_def sample_sdk_def sample_project_def sample_proposal_def
      submit_calls_def lower_def lower_char_def ascii_uppercase_def ascii_lowercase_def)

text \<open>
  C3, amended. At the end of \<^verbatim>\<open>main\<close> (bidder agent), every answer whose lower-case form
  is not \<^verbatim>\<open>y\<close> leads to no call of \<^verbatim>\<open>place_project_bid\<close>: the run returns normally, having
  only displayed the proposal and the prompt. In \<^verbatim>\<open>place_bid\<close> (search tool), every answer
  other than exactly \<^verbatim>\<open>CONFIRM\<close> leads to no call of \<^verbatim>\<open>place_project_bid\<close>: the function
  prints \<^verbatim>\<open>Bid cancelled.\<close> last and returns \<^verbatim>\<open>None\<close>.
\<close>

theorem declined_no_submission:
  "(lower answer \<noteq> ''y'' \<longrightarrow>
      fst (main_confirm api proposal answer t) = Inr ()
      \<and> submit_calls (snd (main_confirm api proposal answer t)) = submit_calls t
      \<and> (\<forall>ev \<in> set (snd (main_confirm api proposal answer t)) - set t.
            \<exists>pr m. ev = Display_bid_proposal pr \<or> ev = Print m))
   \<and> (confirm \<noteq> ''CONFIRM'' \<longrightarrow>
        fst (place_bid api pid confirm t) = Inr None
        \<and> submit_calls (snd (place_bid api pid confirm t)) = submit_calls t
        \<and> last (snd (place_bid api pid confirm t)) = Print [Lit ''Bid cancelled.''])"
  by (cases proposal)
     (auto simp: main_confirm_def place_bid_def Let_def submit_calls_def)

theorem declined_no_submission_witness:
  "submit_calls (snd (main_confirm (sample_sdk (Some sample_project) (Inr sample_bid))
                          (Some sample_proposal) ''yes'' [])) = 0
   \<and> fst (place_bid (sample_sdk (Some sample_project) (Inr sample_bid)) 101 ''confirm'' [])
      = Inr None
   \<and> submit_calls (snd (place_bid (sample_sdk (Some sample_project) (Inr sample_bid)) 101 ''confirm'' [])) = 0"
proof -
  have 1: "lower ''yes'' \<noteq> ''y''"
    by (simp add: lower_def)
  have 2: "''confirm'' \<noteq> ''CONFIRM''"
    by simp
  have 3: "submit_calls [] = 0"
    by (simp add: submit_calls_def)
  from declined_no_submission
      [where answer = "''yes''" and api = "sample_sdk (Some sample_project) (Inr sample_bid)"
         and proposal = "Some sample_proposal" and t = "[]" and confirm = "''confirm''"
         and pid = 101] 1 2 3
  show ?thesis by simp
qed

subsection \<open>A submission that the marketplace rejects\<close>

text \<open>
  C9, as stated, fails in one part: the caught error is not turned into a result that
  carries the reason. \<^verbatim>\<open>submit_bid\<close> logs and prints the message of the exception and
  returns \<^verbatim>\<open>None\<close>, and the end of \<^verbatim>\<open>main\<close> displays no bid result for it.
\<close>

theorem submission_error_counterexample:
  "submit_bid (sample_sdk (Some sample_project) (Inl (BidNotPlacedException ''Bid amount too low'')))
     sample_proposal []
   = (Inr None,
      [Call_get_project_by_id 101,
       Log_info [Lit ''Project status: '', Opt_hole None,
                 Lit '', frontend status: '', Opt_hole None],
       Call_get_self_user_id,
       Call_place_project_bid
         (Bid_request 101 42 150 7 ''I can deliver this within a week.'' 50),
       Log_error [Lit ''Error submitting bid: '', Str_hole ''Bid amount too low''],
       Print [Fore_red, Lit ''Detailed error: '', Str_hole ''Bid amount too low'',
              Style_reset]])
   \<and> main_confirm
         (sample_sdk (Some sample_project) (Inl (BidNotPlacedException ''Bid amount too low'')))
         (Some sample_proposal) ''y'' []
       = (Inr (),
          [Display_bid_proposal sample_proposal,
           Print [Lit [CHR 0x0A], Fore_yellow, Lit ''Submit this bid? (y/n): '', Style_reset],
           Call_get_project_by_id 101,
           Log_info [Lit ''Project status: '', Opt_hole None,
                     Lit '', frontend status: '', Opt_hole None],
           Call_get_self_user_id,
           Call_place_project_bid
             (Bid_request 101 42 150 7 ''I can deliver this within a week.'' 50),
           Log_error [Lit ''Error submitting bid: '', Str_hole ''Bid amount too low''],
           Print [Fore_red, Lit ''Detailed error: '', Str_hole ''Bid amount too low'',
                  Style_reset]])"
  by (simp add: main_confirm_def submit_bid_def submit_bid_try_def check_project_status_def
      status_allows_bidding_def sample_sdk_def sample_project_def sample_proposal_def
      lower_def lower_char_def ascii_uppercase_def ascii_lowercase_def)

text \<open>
  C9, amended. When the re-check passes and \<^verbatim>\<open>place_project_bid\<close> raises \<open>e\<close>,
  \<^verbatim>\<open>submit_bid\<close> catches it: it has called \<^verbatim>\<open>place_project_bid\<close> once and does not call it
  again, it logs \<^verbatim>\<open>Error submitting bid:\<close> and prints \<^verbatim>\<open>Detailed error:\<close>, each with the
  message of \<open>e\<close>, and it returns \<^verbatim>\<open>None\<close>; the end of \<^verbatim>\<open>main\<close> returns normally.
\<close>

theorem submission_error_caught:
  "fst (check_project_status api (project_id pr) t) = True \<Longrightarrow>
   get_self_user_id api = Inr bidder \<Longrightarrow>
   place_project_bid api
     (Bid_request (project_id pr) bidder (bid_amount pr) (period pr)
        (proposal_description pr) (milestone_percentage pr)) = Inl e \<Longrightarrow>
   submit_bid api pr t =
     (Inr None,
      snd (check_project_status api (project_id pr) t)
        @ [Call_get_self_user_id,
           Call_place_project_bid
             (Bid_request (project_id pr) bidder (bid_amount pr) (period pr)
                (proposal_description pr) (milestone_percentage pr)),
           Log_error [Lit ''Error submitting bid: '', Str_hole (str_exn e)],
           Print [Fore_red, Lit ''Detailed error: '', Str_hole (str_exn e), Style_reset]])
   \<and> submit_calls (snd (submit_bid api pr t)) = submit_calls t + 1
   \<and> fst (main_confirm api (Some pr) answer t) = Inr ()"
proof -
  assume a: "fst (check_project_status api (project_id pr) t) = True"
    and b: "get_self_user_id api = Inr bidder"
    and c: "place_project_bid api
     (Bid_request (project_id pr) bidder (bid_amount pr) (period pr)
        (proposal_description pr) (milestone_percentage pr)) = Inl e"
  have s: "submit_bid api pr t =
     (Inr None,
      snd (check_project_status api (project_id pr) t)
        @ [Call_get_self_user_id,
           Call_place_project_bid
             (Bid_request (project_id pr) bidder (bid_amount pr) (period pr)
                (proposal_description pr) (milestone_percentage pr)),
           Log_error [Lit ''Error submitting bid: '', Str_hole (str_exn e)],
           Print [Fore_red, Lit ''Detailed error: '', Str_hole (str_exn e), Style_reset]])"
    using a b c
    by (cases "check_project_status api (project_id pr) t")
       (simp add: submit_bid_def submit_bid_try_def Let_def)
  have "submit_calls (snd (submit_bid api pr t)) = submit_calls t + 1"
    unfolding s by (simp add: submit_calls_append check_project_status_calls)
      (simp add: submit_calls_def)
  with s main_confirm_returns show ?thesis by simp
qed

theorem submission_error_caught_witness:
  "fst (submit_bid
          (sample_sdk (Some sample_project) (Inl (BidNotPlacedException ''Bid amount too low'')))
          sample_proposal []) = Inr None
   \<and> submit_calls (snd (submit_bid
          (sample_sdk (Some sample_project) (Inl (BidNotPlacedException ''Bid amount too low'')))
          sample_proposal [])) = 1"
proof -
  let ?api = "sample_sdk (Some sample_project) (Inl (BidNotPlacedException ''Bid amount too low''))"
  have 1: "fst (check_project_status ?api (project_id sample_proposal) []) = True"
    by (simp add: check_project_status_def status_allows_bidding_def sample_sdk_def
        sample_project_def)
  have 2: "get_self_user_id ?api = Inr 42"
    by (simp add: sample_sdk_def)
  have 3: "place_project_bid ?api
     (Bid_request (project_id sample_proposal) 42 (bid_amount sample_proposal)
        (period sample_proposal) (proposal_description sample_proposal)
        (milestone_percentage sample_proposal)) = Inl (BidNotPlacedException ''Bid amount too low'')"
    by (simp add: sample_sdk_def)
  have 4: "submit_calls [] = 0"
    by (simp add: submit_calls_def)
  note r = submission_error_caught [OF 1 2 3, where answer = "''y''"]
  from r have "fst (submit_bid ?api sample_proposal []) = Inr None"
    by (metis fst_conv)
  moreover from r 4 have "submit_calls (snd (submit_bid ?api sample_proposal [])) = 1"
    by linarith
  ultimately show ?thesis by blast
qed

text \<open>
  The search tool is different: \<^verbatim>\<open>place_bid\<close> catches \<^verbatim>\<open>BidNotPlacedException\<close> only,
  and any other exception of the submit call reaches its caller.
\<close>

lemma place_bid_other_exception:
  "get_self_user_id api = Inr user_id \<Longrightarrow>
   place_project_bid api
     (Bid_request pid user_id (of_int BID_AMOUNT) BID_PERIOD BID_DESCRIPTION 100)
     = Inl (OtherException m) \<Longrightarrow>
   fst (place_bid api pid ''CONFIRM'' t) = Inl (OtherException m)"
  by (simp add: place_bid_def Let_def)

lemma place_bid_not_placed:
  "get_self_user_id api = Inr user_id \<Longrightarrow>
   place_project_bid api
     (Bid_request pid user_id (of_int BID_AMOUNT) BID_PERIOD BID_DESCRIPTION 100)
     = Inl (BidNotPlacedException m) \<Longrightarrow>
   fst (place_bid api pid ''CONFIRM'' t) = Inr None"
  by (simp add: place_bid_def Let_def)

subsection \<open>The guards of \<^verbatim>\<open>get_project_details\<close>\<close>

lemma getitem_in_range:
  "1 \<le> i \<Longrightarrow> i \<le> int (length xs) \<Longrightarrow> getitem xs (i - 1) = Inr (xs ! nat (i - 1))"
  by (simp add: getitem_def)

lemma get_project_details_returns: "\<exists>r. get_project_details api projects i = Inr r"
  by (simp add: get_project_details_def split: sum.splits)

text \<open>
  C10. Called with an empty list of projects, or with an index below 1 or above the
  number of projects, \<^verbatim>\<open>get_project_details\<close> returns a dictionary with the key
  \<^verbatim>\<open>error\<close>: the one of its first or of its second guard, so the list is not read and
  nothing is raised.
\<close>

theorem get_project_details_guarded:
  "projects = [] \<or> project_index < 1 \<or> project_index > int (length projects) \<Longrightarrow>
   get_project_details api projects project_index =
     Inr (Error_dict
            (if projects = [] then [Lit ''No projects available in search results'']
             else [Lit ''Invalid project index. Please choose between 1 and '',
                   Int_hole (int (length projects))]))
   \<and> (\<exists>r. get_project_details api projects project_index = Inr r \<and> has_error_key r)"
  by (auto simp: get_project_details_def)

theorem get_project_details_guarded_witness:
  "(\<exists>r. get_project_details (sample_sdk None (Inr sample_bid)) [] 1 = Inr r \<and> has_error_key r)
   \<and> (\<exists>r. get_project_details (sample_sdk None (Inr sample_bid)) [sample_project] 0 = Inr r
          \<and> has_error_key r)
   \<and> (\<exists>r. get_project_details (sample_sdk None (Inr sample_bid)) [sample_project] 2 = Inr r
          \<and> has_error_key r)"
  using get_project_details_guarded [of "[]" 1 "sample_sdk None (Inr sample_bid)"]
    get_project_details_guarded [of "[sample_project]" 0 "sample_sdk None (Inr sample_bid)"]
    get_project_details_guarded [of "[sample_project]" 2 "sample_sdk None (Inr sample_bid)"]
  by simp

end
